theory Spec2Isabelle
  imports Complex_Main "HOL-Library.AList" "HOL-Library.Sublist"
begin

section \<open>JavaScript strings\<close>

text \<open>
  A JavaScript string is a sequence of UTF-16 code units. The model is a \<^typ>\<open>string\<close>
  with one \<^typ>\<open>char\<close> per code unit, so it covers the strings whose code units lie in
  U+0000..U+00FF. On that range the line terminators are LF and CR, the white space of
  \<^verbatim>\<open>\s\<close> and of \<^verbatim>\<open>trim\<close> is TAB, LF, VT, FF, CR, SP and NBSP, and
  \<^verbatim>\<open>toLowerCase\<close> moves A..Z and the upper-case letters U+00C0..U+00DE (without
  U+00D7) up by 32; the range is closed under it.
\<close>

definition LF :: char where
  "LF = CHR 0x0A"

definition CR :: char where
  "CR = CHR 0x0D"

definition is_line_terminator :: "char \<Rightarrow> bool" where
  "is_line_terminator c = (c = LF \<or> c = CR)"

definition is_white_space :: "char \<Rightarrow> bool" where
  "is_white_space c = (of_char c \<in> {9, 10, 11, 12, 13, 32, 160 :: nat})"

definition toLowerCase_char :: "char \<Rightarrow> char" where
  "toLowerCase_char c =
     (let n = (of_char c :: nat)
      in if (65 \<le> n \<and> n \<le> 90) \<or> (192 \<le> n \<and> n \<le> 214) \<or> (216 \<le> n \<and> n \<le> 222)
         then char_of (n + 32) else c)"

definition js_toLowerCase :: "string \<Rightarrow> string" where
  "js_toLowerCase s = map toLowerCase_char s"

definition js_trim :: "string \<Rightarrow> string" where
  "js_trim s = rev (dropWhile is_white_space (rev (dropWhile is_white_space s)))"

text \<open>\<^verbatim>\<open>s.includes(sub)\<close>: \<open>sub\<close> occurs in \<open>s\<close> as a contiguous piece.\<close>

definition js_includes :: "string \<Rightarrow> string \<Rightarrow> bool" where
  "js_includes s sub = sublist sub s"

text \<open>
  \<^verbatim>\<open>s.split(sep)\<close> scans from the left; where the separator matches it closes the
  current piece and jumps over the separator, otherwise it moves one code unit on; the
  rest of the input is the last piece. The empty separator cuts between all code units.
\<close>

function split_from :: "string \<Rightarrow> string \<Rightarrow> string \<Rightarrow> string list" where
  "split_from sep cur [] = [cur]"
| "split_from sep cur (c # cs) =
     (if sep \<noteq> [] \<and> prefix sep (c # cs)
      then cur # split_from sep [] (drop (length sep) (c # cs))
      else split_from sep (cur @ [c]) cs)"
  by pat_completeness auto
termination
  by (relation "measure (\<lambda>(sep, cur, s). length s)") auto

definition js_split :: "string \<Rightarrow> string \<Rightarrow> string list" where
  "js_split s sep = (if sep = [] then map (\<lambda>c. [c]) s else split_from sep [] s)"

section \<open>Records decoded from a reply\<close>

text \<open>
  \<^verbatim>\<open>Record<string, any>\<close> created by \<^verbatim>\<open>{}\<close>: the own properties in insertion order.
  An assignment \<^verbatim>\<open>obj[k] = v\<close> of a string \<open>v\<close> updates the own property \<open>k\<close> or
  appends it; for \<open>k = "__proto__"\<close> it reaches the accessor inherited from
  \<^verbatim>\<open>Object.prototype\<close>, whose setter ignores a value that is not an object, so that no
  own property is created. None of the property names that the client reads is inherited,
  so a read is a lookup among the own properties.
\<close>

type_synonym jsobject = "(string \<times> string) list"

definition set_prop :: "jsobject \<Rightarrow> string \<Rightarrow> string \<Rightarrow> jsobject" where
  "set_prop obj k v = (if k = ''__proto__'' then obj else AList.update k v obj)"

definition get_prop :: "jsobject \<Rightarrow> string \<Rightarrow> string option" where
  "get_prop obj k = map_of obj k"

text \<open>
  \<^verbatim>\<open>line.match(/^([^:]+):\s(.+)$/)\<close>: the key is the non-empty text before the first
  colon, the colon is followed by one white space character, and the value is the
  non-empty rest of the line, free of line terminators.
\<close>

definition match_line :: "string \<Rightarrow> (string \<times> string) option" where
  "match_line line =
     (let key = takeWhile (\<lambda>c. c \<noteq> CHR '':'') line;
          rest = dropWhile (\<lambda>c. c \<noteq> CHR '':'') line
      in if key = [] then None
         else (case rest of
                 [] \<Rightarrow> None
               | colon # after \<Rightarrow>
                   (case after of
                      [] \<Rightarrow> None
                    | w # val \<Rightarrow>
                        if is_white_space w \<and> val \<noteq> [] \<and> list_all (\<lambda>c. \<not> is_line_terminator c) val
                        then Some (key, val) else None)))"

text \<open>The body of the loop of \<^verbatim>\<open>parseResponse\<close>, and the function itself.\<close>

definition parseResponse_step :: "jsobject \<Rightarrow> string \<Rightarrow> jsobject" where
  "parseResponse_step result line =
     (case match_line line of
        None \<Rightarrow> result
      | Some (key, val) \<Rightarrow> set_prop result (js_toLowerCase key) val)"

definition parseResponse_lines :: "string list \<Rightarrow> jsobject" where
  "parseResponse_lines lines = foldl parseResponse_step [] lines"

definition parseResponse :: "string \<Rightarrow> jsobject" where
  "parseResponse data = parseResponse_lines (js_split data [LF])"

text \<open>
  The body of the loop of \<^verbatim>\<open>parseArrayResponse\<close> on the pair of \<open>result\<close> and
  \<open>current\<close>, the final push, and the function itself.
  \<^verbatim>\<open>Object.keys(current).length > 0\<close> is \<open>current \<noteq> []\<close>.
\<close>

definition parseArrayResponse_step ::
  "jsobject list \<times> jsobject \<Rightarrow> string \<Rightarrow> jsobject list \<times> jsobject" where
  "parseArrayResponse_step st line =
     (case match_line line of
        None \<Rightarrow> st
      | Some (key, val) \<Rightarrow>
          (let lcKey = js_toLowerCase key
           in if lcKey = ''file'' \<and> snd st \<noteq> []
              then (fst st @ [snd st], set_prop [] lcKey val)
              else (fst st, set_prop (snd st) lcKey val)))"

definition push_last :: "jsobject list \<times> jsobject \<Rightarrow> jsobject list" where
  "push_last st = (if snd st \<noteq> [] then fst st @ [snd st] else fst st)"

definition parseArrayResponse_lines :: "string list \<Rightarrow> jsobject list" where
  "parseArrayResponse_lines lines = push_last (foldl parseArrayResponse_step ([], []) lines)"

definition parseArrayResponse :: "string \<Rightarrow> jsobject list" where
  "parseArrayResponse data = parseArrayResponse_lines (js_split data [LF])"






section \<open>JavaScript numbers\<close>

text \<open>
  A \<^verbatim>\<open>number\<close> is NaN, an infinity or a finite value. Every finite double is a
  rational, and \<^verbatim>\<open>Math.floor\<close>, \<^verbatim>\<open>Math.min\<close> and \<^verbatim>\<open>Math.max\<close> are exact on
  doubles, so the finite values are carried as \<^typ>\<open>rat\<close>, or as \<^typ>\<open>int\<close> where the
  operation yields integral values only. The sign of zero is not carried (it is never
  observed by the code), and the rounding of a parsed decimal to the nearest double is
  not modelled.
\<close>

datatype 'a jsnum = NaN | PosInf | NegInf | Num 'a

fun Math_floor :: "rat jsnum \<Rightarrow> int jsnum" where
  "Math_floor NaN = NaN"
| "Math_floor PosInf = PosInf"
| "Math_floor NegInf = NegInf"
| "Math_floor (Num r) = Num \<lfloor>r\<rfloor>"

fun Math_min :: "int jsnum \<Rightarrow> int jsnum \<Rightarrow> int jsnum" where
  "Math_min NaN y = NaN"
| "Math_min x NaN = NaN"
| "Math_min NegInf y = NegInf"
| "Math_min x NegInf = NegInf"
| "Math_min PosInf y = y"
| "Math_min x PosInf = x"
| "Math_min (Num a) (Num b) = Num (min a b)"

fun Math_max :: "int jsnum \<Rightarrow> int jsnum \<Rightarrow> int jsnum" where
  "Math_max NaN y = NaN"
| "Math_max x NaN = NaN"
| "Math_max PosInf y = PosInf"
| "Math_max x PosInf = PosInf"
| "Math_max NegInf y = y"
| "Math_max x NegInf = x"
| "Math_max (Num a) (Num b) = Num (max a b)"

fun digits10 :: "nat \<Rightarrow> string" where
  "digits10 n =
     (if n < 10 then [char_of (48 + n)]
      else digits10 (n div 10) @ [char_of (48 + n mod 10)])"

declare digits10.simps [simp del]

text \<open>\<^verbatim>\<open>n.toString()\<close> of an integral number (below \<open>10\<^sup>2\<^sup>1\<close> in absolute value).\<close>

fun number_toString :: "int jsnum \<Rightarrow> string" where
  "number_toString NaN = ''NaN''"
| "number_toString PosInf = ''Infinity''"
| "number_toString NegInf = ''-Infinity''"
| "number_toString (Num n) = (if n < 0 then CHR ''-'' # digits10 (nat (- n)) else digits10 (nat n))"

text \<open>
  \<^verbatim>\<open>String(x)\<close> of a property read, which \<^verbatim>\<open>parseInt\<close> and \<^verbatim>\<open>parseFloat\<close> apply
  to their argument first: a missing property reads as \<^verbatim>\<open>undefined\<close>.
\<close>

definition js_String :: "string option \<Rightarrow> string" where
  "js_String x = (case x of None \<Rightarrow> ''undefined'' | Some s \<Rightarrow> s)"

definition is_digit :: "char \<Rightarrow> bool" where
  "is_digit c = (48 \<le> (of_char c :: nat) \<and> (of_char c :: nat) \<le> 57)"

definition digits_val :: "string \<Rightarrow> nat" where
  "digits_val ds = foldl (\<lambda>a c. 10 * a + (of_char c - 48)) 0 ds"

definition strip_sign :: "string \<Rightarrow> bool \<times> string" where
  "strip_sign s =
     (case s of
        [] \<Rightarrow> (False, s)
      | c # r \<Rightarrow> if c = CHR ''-'' then (True, r) else if c = CHR ''+'' then (False, r) else (False, s))"

text \<open>\<^verbatim>\<open>parseInt(x, 10)\<close>: leading white space, a sign, the longest run of digits.\<close>

definition parseInt10 :: "string option \<Rightarrow> int jsnum" where
  "parseInt10 x =
     (let (neg, r) = strip_sign (dropWhile is_white_space (js_String x));
          ds = takeWhile is_digit r
      in if ds = [] then NaN
         else Num (if neg then - int (digits_val ds) else int (digits_val ds)))"

text \<open>
  \<^verbatim>\<open>parseFloat(x)\<close>: leading white space, a sign, then \<^verbatim>\<open>Infinity\<close> or the longest
  decimal literal: digits, a fraction, and an exponent that counts only with a digit.
\<close>

definition exponent_part :: "string \<Rightarrow> int" where
  "exponent_part s =
     (case s of
        [] \<Rightarrow> 0
      | c # r \<Rightarrow>
          if c = CHR ''e'' \<or> c = CHR ''E''
          then (let (neg, r') = strip_sign r;
                    ds = takeWhile is_digit r'
                in if ds = [] then 0
                   else if neg then - int (digits_val ds) else int (digits_val ds))
          else 0)"

definition scale10 :: "int \<Rightarrow> int \<Rightarrow> rat" where
  "scale10 m e = (if 0 \<le> e then of_int m * 10 ^ nat e else of_int m / 10 ^ nat (- e))"

definition parseFloat :: "string option \<Rightarrow> rat jsnum" where
  "parseFloat x =
     (let (neg, r) = strip_sign (dropWhile is_white_space (js_String x))
      in if prefix ''Infinity'' r then (if neg then NegInf else PosInf)
         else
           (let ds1 = takeWhile is_digit r;
                r1 = dropWhile is_digit r;
                has_dot = (case r1 of [] \<Rightarrow> False | c # t \<Rightarrow> c = CHR ''.'');
                ds2 = (if has_dot then takeWhile is_digit (tl r1) else []);
                r2 = (if has_dot then dropWhile is_digit (tl r1) else r1);
                m = int (digits_val (ds1 @ ds2));
                e = exponent_part r2 - int (length ds2)
            in if ds1 = [] \<and> ds2 = [] then NaN
               else Num (scale10 (if neg then - m else m) e)))"

section \<open>Entities\<close>

text \<open>
  The interfaces \<^verbatim>\<open>MpdSong\<close>, \<^verbatim>\<open>MpdStatus\<close> and \<^verbatim>\<open>MpdStats\<close>. A field is prefixed by
  the name of its entity; an optional field (\<^verbatim>\<open>?:\<close>), and a string that is copied from a
  property read, is an \<^typ>\<open>'a option\<close> with \<open>None\<close> for \<^verbatim>\<open>undefined\<close>.
\<close>

record MpdSong =
  song_file :: "string option"
  song_artist :: "string option"
  song_album :: "string option"
  song_title :: "string option"
  song_track :: "string option"
  song_duration :: "rat jsnum option"
  song_pos :: "int jsnum option"
  song_id :: "int jsnum option"
  song_time :: "string option"

record MpdStatus =
  status_volume :: "int jsnum"
  status_repeat :: bool
  status_random :: bool
  status_single :: bool
  status_consume :: bool
  status_playlist :: "int jsnum"
  status_playlistlength :: "int jsnum"
  status_mixrampdb :: "rat jsnum"
  status_state :: "string option"
  status_song :: "int jsnum option"
  status_songid :: "int jsnum option"
  status_time :: "string option"
  status_elapsed :: "rat jsnum option"
  status_bitrate :: "int jsnum option"
  status_duration :: "rat jsnum option"
  status_audio :: "string option"
  status_nextsong :: "int jsnum option"
  status_nextsongid :: "int jsnum option"

record MpdStats =
  stats_artists :: "int jsnum"
  stats_albums :: "int jsnum"
  stats_songs :: "int jsnum"
  stats_uptime :: "int jsnum"
  stats_db_playtime :: "int jsnum"
  stats_db_update :: "int jsnum"
  stats_playtime :: "int jsnum"

text \<open>\<^verbatim>\<open>x !== undefined ? parseInt(x, 10) : undefined\<close> and its \<^verbatim>\<open>parseFloat\<close> twin.\<close>

definition optional_int :: "string option \<Rightarrow> int jsnum option" where
  "optional_int x = (case x of None \<Rightarrow> None | Some v \<Rightarrow> Some (parseInt10 (Some v)))"

definition optional_float :: "string option \<Rightarrow> rat jsnum option" where
  "optional_float x = (case x of None \<Rightarrow> None | Some v \<Rightarrow> Some (parseFloat (Some v)))"

definition convertToMpdSong :: "jsobject \<Rightarrow> MpdSong" where
  "convertToMpdSong data =
     \<lparr> song_file = get_prop data ''file'',
       song_artist = get_prop data ''artist'',
       song_album = get_prop data ''album'',
       song_title = get_prop data ''title'',
       song_track = get_prop data ''track'',
       song_duration = optional_float (get_prop data ''duration''),
       song_pos = optional_int (get_prop data ''pos''),
       song_id = optional_int (get_prop data ''id''),
       song_time = get_prop data ''time'' \<rparr>"

text \<open>The object literals that \<^verbatim>\<open>status()\<close> and \<^verbatim>\<open>stats()\<close> build from \<open>parsed\<close>.\<close>

definition status_of :: "jsobject \<Rightarrow> MpdStatus" where
  "status_of parsed =
     \<lparr> status_volume = parseInt10 (get_prop parsed ''volume''),
       status_repeat = (get_prop parsed ''repeat'' = Some ''1''),
       status_random = (get_prop parsed ''random'' = Some ''1''),
       status_single = (get_prop parsed ''single'' = Some ''1''),
       status_consume = (get_prop parsed ''consume'' = Some ''1''),
       status_playlist = parseInt10 (get_prop parsed ''playlist''),
       status_playlistlength = parseInt10 (get_prop parsed ''playlistlength''),
       status_mixrampdb = parseFloat (get_prop parsed ''mixrampdb''),
       status_state = get_prop parsed ''state'',
       status_song = optional_int (get_prop parsed ''song''),
       status_songid = optional_int (get_prop parsed ''songid''),
       status_time = get_prop parsed ''time'',
       status_elapsed = optional_float (get_prop parsed ''elapsed''),
       status_bitrate = optional_int (get_prop parsed ''bitrate''),
       status_duration = optional_float (get_prop parsed ''duration''),
       status_audio = get_prop parsed ''audio'',
       status_nextsong = optional_int (get_prop parsed ''nextsong''),
       status_nextsongid = optional_int (get_prop parsed ''nextsongid'') \<rparr>"

definition stats_of :: "jsobject \<Rightarrow> MpdStats" where
  "stats_of parsed =
     \<lparr> stats_artists = parseInt10 (get_prop parsed ''artists''),
       stats_albums = parseInt10 (get_prop parsed ''albums''),
       stats_songs = parseInt10 (get_prop parsed ''songs''),
       stats_uptime = parseInt10 (get_prop parsed ''uptime''),
       stats_db_playtime = parseInt10 (get_prop parsed ''db_playtime''),
       stats_db_update = parseInt10 (get_prop parsed ''db_update''),
       stats_playtime = parseInt10 (get_prop parsed ''playtime'') \<rparr>"


section \<open>The session and the transport\<close>

text \<open>
  What an awaited call can throw: the \<^verbatim>\<open>Error("Not connected to MPD server")\<close> of
  \<^verbatim>\<open>cmd\<close>, the \<^verbatim>\<open>TypeError\<close> of a method call on an undefined \<open>client\<close>, and the
  rejections of the library: the transport is lost, or the daemon answers with an error.
\<close>

datatype failure = NotConnected | TypeError | ConnectionLost | CommandRejected string

text \<open>\<^verbatim>\<open>sendCommand(command)\<close> with one string, and \<^verbatim>\<open>sendCommand(command, args)\<close>.\<close>

datatype request = Raw string | Cmd string "string list"

text \<open>A call of \<^verbatim>\<open>console.error\<close>, with a message or with a message and an error.\<close>

datatype log = Log string | LogErr string failure

text \<open>
  The library \<^verbatim>\<open>mpd2\<close> is outside the repository: it is a parameter. \<open>'d\<close> is the
  state behind the handle that \<^verbatim>\<open>MPD.connect\<close> returns; \<open>sendCommand\<close> and \<open>close\<close>
  resolve or reject and leave a new state; \<open>close\<close> is \<open>None\<close> when the handle has no
  function of that name.
\<close>

record 'd mpd2 =
  MPD_connect :: "string \<Rightarrow> int \<Rightarrow> failure + 'd"
  sendCommand :: "'d \<Rightarrow> request \<Rightarrow> (failure + string) \<times> 'd"
  close :: "('d \<Rightarrow> failure option \<times> 'd) option"

text \<open>
  The fields of the class, the output of \<^verbatim>\<open>console.error\<close>, and \<open>wire\<close>: the requests
  handed to the library so far, in order (an observation, not a field of the class).
\<close>

record 'd MpdClientImpl =
  client :: "'d option"
  host :: string
  port :: int
  connected :: bool
  console :: "log list"
  wire :: "request list"

definition console_error :: "'d MpdClientImpl \<Rightarrow> log \<Rightarrow> 'd MpdClientImpl" where
  "console_error s entry = s\<lparr>console := console s @ [entry]\<rparr>"

text \<open>\<^verbatim>\<open>await this.client.sendCommand(...)\<close>.\<close>

definition send :: "'d mpd2 \<Rightarrow> 'd MpdClientImpl \<Rightarrow> request \<Rightarrow> (failure + string) \<times> 'd MpdClientImpl" where
  "send L s r =
     (case client s of
        None \<Rightarrow> (Inl TypeError, s)
      | Some d \<Rightarrow>
          (case sendCommand L d r of
             (reply, d') \<Rightarrow> (reply, s\<lparr>client := Some d', wire := wire s @ [r]\<rparr>)))"

definition connect :: "'d mpd2 \<Rightarrow> 'd MpdClientImpl \<Rightarrow> (failure + unit) \<times> 'd MpdClientImpl" where
  "connect L s =
     (if connected s then (Inr (), s)
      else (case MPD_connect L (host s) (port s) of
              Inr d \<Rightarrow> (Inr (), s\<lparr>client := Some d, connected := True\<rparr>)
            | Inl err \<Rightarrow> (Inl err, s\<lparr>connected := False\<rparr>)))"

definition disconnect :: "'d mpd2 \<Rightarrow> 'd MpdClientImpl \<Rightarrow> (failure + unit) \<times> 'd MpdClientImpl" where
  "disconnect L s =
     (if connected s then
        (case (client s, close L) of
           (Some d, Some close_fn) \<Rightarrow>
             (case close_fn d of
                (None, d') \<Rightarrow> (Inr (), s\<lparr>client := Some d', connected := False\<rparr>)
              | (Some err, d') \<Rightarrow>
                  (Inr (), console_error (s\<lparr>client := Some d'\<rparr>)
                             (LogErr ''Error disconnecting from MPD:'' err)))
         | _ \<Rightarrow> (Inr (), s\<lparr>connected := False\<rparr>))
      else (Inr (), s))"

definition cmd :: "'d mpd2 \<Rightarrow> 'd MpdClientImpl \<Rightarrow> string \<Rightarrow> string list \<Rightarrow> (failure + string) \<times> 'd MpdClientImpl" where
  "cmd L s command args =
     (if connected s \<and> client s \<noteq> None then send L s (Cmd command args)
      else (Inl NotConnected, s))"

definition setVolume :: "'d mpd2 \<Rightarrow> 'd MpdClientImpl \<Rightarrow> rat jsnum \<Rightarrow> (failure + unit) \<times> 'd MpdClientImpl" where
  "setVolume L s volume =
     (let vol = Math_max (Num 0) (Math_min (Num 100) (Math_floor volume))
      in case cmd L s ''setvol'' [number_toString vol] of
           (Inl err, s') \<Rightarrow> (Inl err, s')
         | (Inr reply, s') \<Rightarrow> (Inr (), s'))"

definition status :: "'d mpd2 \<Rightarrow> 'd MpdClientImpl \<Rightarrow> (failure + MpdStatus) \<times> 'd MpdClientImpl" where
  "status L s =
     (case cmd L s ''status'' [] of
        (Inl err, s') \<Rightarrow> (Inl err, s')
      | (Inr response, s') \<Rightarrow> (Inr (status_of (parseResponse response)), s'))"

definition stats :: "'d mpd2 \<Rightarrow> 'd MpdClientImpl \<Rightarrow> (failure + MpdStats) \<times> 'd MpdClientImpl" where
  "stats L s =
     (case cmd L s ''stats'' [] of
        (Inl err, s') \<Rightarrow> (Inl err, s')
      | (Inr response, s') \<Rightarrow> (Inr (stats_of (parseResponse response)), s'))"

section \<open>Search\<close>

text \<open>
  The newer revision of the client, where \<^verbatim>\<open>search\<close> is a cascade.
  \<^verbatim>\<open>q.replace(/"/g, '\\"')\<close> and the command text
  \<^verbatim>\<open>search "${type}" "${...}"\<close>.
\<close>

definition escape_quotes :: "string \<Rightarrow> string" where
  "escape_quotes q = concat (map (\<lambda>c. if c = CHR 0x22 then [CHR 0x5C, CHR 0x22] else [c]) q)"

definition search_command :: "string \<Rightarrow> string \<Rightarrow> string" where
  "search_command type q = ''search \"'' @ type @ ''\" \"'' @ escape_quotes q @ ''\"''"

definition processSearchQuery :: "string \<Rightarrow> string" where
  "processSearchQuery query =
     (if js_includes query '' - '' \<and> js_includes query ''(''
      then (case js_split query '' - '' of
              a # b # rest \<Rightarrow>
                (let titlePart = hd (js_split b '' ('')
                 in if titlePart \<noteq> [] then js_trim titlePart else query)
            | _ \<Rightarrow> query)
      else query)"

text \<open>
  The third try; the second try, which falls through to the third; the whole
  \<^verbatim>\<open>try\<close> block; and \<^verbatim>\<open>search\<close> with its \<^verbatim>\<open>catch\<close>.
\<close>

definition array_attempt :: "'d mpd2 \<Rightarrow> 'd MpdClientImpl \<Rightarrow> string \<Rightarrow> string \<Rightarrow> (failure + MpdSong list) \<times> 'd MpdClientImpl" where
  "array_attempt L s type processedQuery =
     (case cmd L (console_error s (Log ''Trying array approach'')) ''search'' [type, processedQuery] of
        (Inl err, s') \<Rightarrow> (Inl err, s')
      | (Inr arrayResponse, s') \<Rightarrow> (Inr (map convertToMpdSong (parseArrayResponse arrayResponse)), s'))"

definition title_attempt ::
  "'d mpd2 \<Rightarrow> 'd MpdClientImpl \<Rightarrow> string \<Rightarrow> string \<Rightarrow> string \<Rightarrow> (failure + MpdSong list) \<times> 'd MpdClientImpl" where
  "title_attempt L s type query processedQuery =
     (let simplifiedQuery = js_trim (hd (js_split query ''(''));
          s' = console_error s
                 (Log (''No results, trying simplified title: \"'' @ simplifiedQuery @ ''\"''));
          fallbackCommand = search_command type simplifiedQuery
      in case send L s' (Raw fallbackCommand) of
           (Inl err, s'') \<Rightarrow> (Inl err, s'')
         | (Inr fallbackResponse, s'') \<Rightarrow>
             (let fallbackResults = map convertToMpdSong (parseArrayResponse fallbackResponse)
              in if fallbackResults \<noteq> [] then (Inr fallbackResults, s'')
                 else array_attempt L s'' type processedQuery))"

definition search_attempts ::
  "'d mpd2 \<Rightarrow> 'd MpdClientImpl \<Rightarrow> string \<Rightarrow> string \<Rightarrow> string \<Rightarrow> (failure + MpdSong list) \<times> 'd MpdClientImpl" where
  "search_attempts L s type query processedQuery =
     (let command = search_command type processedQuery
      in case send L (console_error s (Log (''Search command: '' @ command))) (Raw command) of
           (Inl err, s1) \<Rightarrow> (Inl err, s1)
         | (Inr response, s1) \<Rightarrow>
             (let results = map convertToMpdSong (parseArrayResponse response)
              in if results \<noteq> [] then (Inr results, s1)
                 else if type = ''title'' \<and> processedQuery \<noteq> query \<and> js_includes query ''(''
                 then title_attempt L s1 type query processedQuery
                 else array_attempt L s1 type processedQuery))"

function search :: "'d mpd2 \<Rightarrow> 'd MpdClientImpl \<Rightarrow> string \<Rightarrow> string \<Rightarrow> (failure + MpdSong list) \<times> 'd MpdClientImpl" where
  "search L s type query =
     (let s1 = console_error s (Log (''Searching for '' @ type @ '': \"'' @ query @ ''\"''));
          processedQuery = processSearchQuery query;
          s2 = console_error s1 (Log (''Processed query: \"'' @ processedQuery @ ''\"''))
      in case search_attempts L s2 type query processedQuery of
           (Inr results, s3) \<Rightarrow> (Inr results, s3)
         | (Inl err, s3) \<Rightarrow>
             (let s4 = console_error s3 (LogErr ''MPD search error:'' err)
              in if type \<noteq> ''any''
                 then (case search L (console_error s4 (Log ''Trying 'any' field search as last resort'')) ''any'' query of
                         (Inr results, s5) \<Rightarrow> (Inr results, s5)
                       | (Inl anyError, s5) \<Rightarrow>
                           (Inr [], console_error
                                      (console_error s5 (LogErr ''Even 'any' field search failed:'' anyError))
                                      (Log ''All search attempts failed, returning empty results'')))
                 else (Inr [], console_error s4 (Log ''All search attempts failed, returning empty results''))))"
  by pat_completeness auto
termination
  by (relation "measure (\<lambda>(L, s, type, query). if type = ''any'' then 0 else 1)") auto

declare search.simps [simp del]



section \<open>Sessions and libraries used as examples\<close>

text \<open>The constructor, and a session after a successful \<^verbatim>\<open>connect()\<close>.\<close>

definition new_client :: "string \<Rightarrow> int \<Rightarrow> 'd MpdClientImpl" where
  "new_client h p =
     \<lparr> client = None, host = h, port = p, connected = False, console = [], wire = [] \<rparr>"

definition connected_client :: "'d mpd2 \<Rightarrow> 'd MpdClientImpl" where
  "connected_client L = snd (connect L (new_client ''localhost'' 6600))"

text \<open>
  A daemon with an empty database (every reply is the empty text), a transport that is
  lost (every command is rejected), and a handle whose \<open>close\<close> rejects.
\<close>

definition empty_daemon :: "unit mpd2" where
  "empty_daemon =
     \<lparr> MPD_connect = (\<lambda>h p. Inr ()),
       sendCommand = (\<lambda>d r. (Inr [], d)),
       close = Some (\<lambda>d. (None, d)) \<rparr>"

definition lost_transport :: "unit mpd2" where
  "lost_transport =
     \<lparr> MPD_connect = (\<lambda>h p. Inr ()),
       sendCommand = (\<lambda>d r. (Inl ConnectionLost, d)),
       close = Some (\<lambda>d. (None, d)) \<rparr>"

definition failing_close :: "unit mpd2" where
  "failing_close =
     \<lparr> MPD_connect = (\<lambda>h p. Inr ()),
       sendCommand = (\<lambda>d r. (Inr [], d)),
       close = Some (\<lambda>d. (Some ConnectionLost, d)) \<rparr>"


text \<open>What \<^verbatim>\<open>this.client.close()\<close> throws in \<^verbatim>\<open>disconnect\<close>, if it is called and throws.\<close>

definition close_error :: "'d mpd2 \<Rightarrow> 'd MpdClientImpl \<Rightarrow> failure option" where
  "close_error L s =
     (case (client s, close L) of
        (Some d, Some close_fn) \<Rightarrow> fst (close_fn d)
      | _ \<Rightarrow> None)"

text \<open>
  The session at the \<^verbatim>\<open>try\<close> of \<^verbatim>\<open>search\<close>, after its two opening messages. The reply
  and the next handle of a request sent through a handle that may be undefined. A session
  whose every request fails: it has no handle, or the transport rejects every command. A
  daemon whose every reply decodes to no record.
\<close>

definition search_start :: "'d MpdClientImpl \<Rightarrow> string \<Rightarrow> string \<Rightarrow> 'd MpdClientImpl" where
  "search_start s type query =
     console_error
       (console_error s (Log (''Searching for '' @ type @ '': \"'' @ query @ ''\"'')))
       (Log (''Processed query: \"'' @ processSearchQuery query @ ''\"''))"

definition send_reply :: "'d mpd2 \<Rightarrow> 'd option \<Rightarrow> request \<Rightarrow> failure + string" where
  "send_reply L c r = (case c of None \<Rightarrow> Inl TypeError | Some d \<Rightarrow> fst (sendCommand L d r))"

definition send_next :: "'d mpd2 \<Rightarrow> 'd option \<Rightarrow> request \<Rightarrow> 'd option" where
  "send_next L c r = (case c of None \<Rightarrow> None | Some d \<Rightarrow> Some (snd (sendCommand L d r)))"

definition unreachable :: "'d mpd2 \<Rightarrow> 'd MpdClientImpl \<Rightarrow> bool" where
  "unreachable L s = (client s = None \<or> (\<forall>d r. isl (fst (sendCommand L d r))))"


text \<open>
  The \<^verbatim>\<open>try\<close> block of \<open>search\<close> as \<open>search\<close> runs it. A line that does not write the
  key \<open>__proto__\<close>.
\<close>

definition search_try ::
  "'d mpd2 \<Rightarrow> 'd MpdClientImpl \<Rightarrow> string \<Rightarrow> string \<Rightarrow> (failure + MpdSong list) \<times> 'd MpdClientImpl" where
  "search_try L s type query =
     search_attempts L (search_start s type query) type query (processSearchQuery query)"


section \<open>Properties\<close>

subsection \<open>Splitting a reply into lines and records\<close>


















subsection \<open>The single record of a reply\<close>




text \<open>
  Claim C8. By \<open>parseResponse_lookup\<close> the claim holds for every key but one: the value
  stored under a key is the value of the last matching line with that lower-cased key,
  lines that do not match leave the record as it is, and the empty text gives the empty
  record. The line \<^verbatim>\<open>__proto__: x\<close> matches the shape, and its key is not written
  into the record: the decoded record has no field at all.
\<close>

theorem parseResponse_proto_dropped:
  "match_line ''__proto__: x'' = Some (''__proto__'', ''x'')
   \<and> js_toLowerCase ''__proto__'' = ''__proto__''
   \<and> parseResponse ''__proto__: x'' = []
   \<and> get_prop (parseResponse ''__proto__: x'') ''__proto__'' = None"
  by code_simp

lemma parseResponse_empty: "parseResponse [] = []"
  by code_simp

subsection \<open>The records of a listing\<close>









subsection \<open>Entities from records\<close>

lemma parseInt10_undefined: "parseInt10 None = NaN"
  by code_simp

lemma parseFloat_undefined: "parseFloat None = NaN"
  by code_simp

text \<open>
  Claim C6, as stated, fails: in the status and in the statistics of an empty reply the
  fields \<open>volume\<close> and \<open>artists\<close> are missing from the record and are mapped to NaN.
\<close>

theorem missing_required_field_is_NaN:
  "get_prop (parseResponse []) ''volume'' = None
   \<and> status_volume (status_of (parseResponse [])) = NaN
   \<and> get_prop (parseResponse []) ''artists'' = None
   \<and> stats_artists (stats_of (parseResponse [])) = NaN"
  by code_simp

text \<open>
  Claim C6, amended. For every record, a missing source field gives an absent destination
  field for the optional numeric fields (\<open>duration\<close>, \<open>pos\<close>, \<open>id\<close> of a song; \<open>song\<close>,
  \<open>songid\<close>, \<open>elapsed\<close>, \<open>bitrate\<close>, \<open>duration\<close>, \<open>nextsong\<close>, \<open>nextsongid\<close> of the
  status), and gives NaN for the required numeric fields (\<open>volume\<close>, \<open>playlist\<close>,
  \<open>playlistlength\<close>, \<open>mixrampdb\<close> of the status, and all seven fields of the statistics).
\<close>

theorem missing_numeric_fields:
  "(get_prop r ''duration'' = None \<longrightarrow> song_duration (convertToMpdSong r) = None)
 \<and> (get_prop r ''pos'' = None \<longrightarrow> song_pos (convertToMpdSong r) = None)
 \<and> (get_prop r ''id'' = None \<longrightarrow> song_id (convertToMpdSong r) = None)
 \<and> (get_prop r ''song'' = None \<longrightarrow> status_song (status_of r) = None)
 \<and> (get_prop r ''songid'' = None \<longrightarrow> status_songid (status_of r) = None)
 \<and> (get_prop r ''elapsed'' = None \<longrightarrow> status_elapsed (status_of r) = None)
 \<and> (get_prop r ''bitrate'' = None \<longrightarrow> status_bitrate (status_of r) = None)
 \<and> (get_prop r ''duration'' = None \<longrightarrow> status_duration (status_of r) = None)
 \<and> (get_prop r ''nextsong'' = None \<longrightarrow> status_nextsong (status_of r) = None)
 \<and> (get_prop r ''nextsongid'' = None \<longrightarrow> status_nextsongid (status_of r) = None)
 \<and> (get_prop r ''volume'' = None \<longrightarrow> status_volume (status_of r) = NaN)
 \<and> (get_prop r ''playlist'' = None \<longrightarrow> status_playlist (status_of r) = NaN)
 \<and> (get_prop r ''playlistlength'' = None \<longrightarrow> status_playlistlength (status_of r) = NaN)
 \<and> (get_prop r ''mixrampdb'' = None \<longrightarrow> status_mixrampdb (status_of r) = NaN)
 \<and> (get_prop r ''artists'' = None \<longrightarrow> stats_artists (stats_of r) = NaN)
 \<and> (get_prop r ''albums'' = None \<longrightarrow> stats_albums (stats_of r) = NaN)
 \<and> (get_prop r ''songs'' = None \<longrightarrow> stats_songs (stats_of r) = NaN)
 \<and> (get_prop r ''uptime'' = None \<longrightarrow> stats_uptime (stats_of r) = NaN)
 \<and> (get_prop r ''db_playtime'' = None \<longrightarrow> stats_db_playtime (stats_of r) = NaN)
 \<and> (get_prop r ''db_update'' = None \<longrightarrow> stats_db_update (stats_of r) = NaN)
 \<and> (get_prop r ''playtime'' = None \<longrightarrow> stats_playtime (stats_of r) = NaN)"
  by (simp add: convertToMpdSong_def status_of_def stats_of_def optional_int_def
      optional_float_def parseInt10_undefined parseFloat_undefined)

theorem missing_numeric_fields_witness:
  "get_prop [(''file'', ''a.mp3'')] ''pos'' = None
   \<and> song_pos (convertToMpdSong [(''file'', ''a.mp3'')]) = None
   \<and> get_prop [(''file'', ''a.mp3'')] ''song'' = None
   \<and> status_song (status_of [(''file'', ''a.mp3'')]) = None
   \<and> get_prop [(''file'', ''a.mp3'')] ''volume'' = None
   \<and> status_volume (status_of [(''file'', ''a.mp3'')]) = NaN
   \<and> get_prop [(''file'', ''a.mp3'')] ''uptime'' = None
   \<and> stats_uptime (stats_of [(''file'', ''a.mp3'')]) = NaN"
  using missing_numeric_fields [of "[(''file'', ''a.mp3'')]"]
  by (simp add: get_prop_def)

subsection \<open>Volume\<close>

lemma connected_client_ok:
  "MPD_connect L ''localhost'' 6600 = Inr d \<Longrightarrow>
   connected (connected_client L) \<and> client (connected_client L) = Some d
   \<and> wire (connected_client L) = [] \<and> console (connected_client L) = []"
  by (simp add: connected_client_def connect_def new_client_def)

lemma wire_cmd:
  "connected s \<Longrightarrow> client s = Some d \<Longrightarrow> wire (snd (cmd L s c args)) = wire s @ [Cmd c args]"
  by (simp add: cmd_def send_def split: prod.splits)

lemma setVolume_finite:
  assumes "connected s" and "client s = Some d"
  shows "wire (snd (setVolume L s (Num r)))
           = wire s @ [Cmd ''setvol'' [digits10 (nat (max 0 (min 100 \<lfloor>r\<rfloor>)))]]"
    and "0 \<le> max 0 (min 100 \<lfloor>r\<rfloor>) \<and> max 0 (min 100 \<lfloor>r\<rfloor>) \<le> 100"
proof -
  have "Math_max (Num 0) (Math_min (Num 100) (Math_floor (Num r))) = Num (max 0 (min 100 \<lfloor>r\<rfloor>))"
    by simp
  moreover have "\<not> max 0 (min 100 \<lfloor>r\<rfloor>) < 0" by simp
  ultimately have "setVolume L s (Num r)
      = (case cmd L s ''setvol'' [digits10 (nat (max 0 (min 100 \<lfloor>r\<rfloor>)))] of
           (Inl err, s') \<Rightarrow> (Inl err, s') | (Inr reply, s') \<Rightarrow> (Inr (), s'))"
    unfolding setVolume_def Let_def by (simp del: Math_max.simps Math_min.simps Math_floor.simps)
  then have "snd (setVolume L s (Num r))
      = snd (cmd L s ''setvol'' [digits10 (nat (max 0 (min 100 \<lfloor>r\<rfloor>)))])"
    by (simp split: prod.splits sum.splits)
  then show "wire (snd (setVolume L s (Num r)))
           = wire s @ [Cmd ''setvol'' [digits10 (nat (max 0 (min 100 \<lfloor>r\<rfloor>)))]]"
    using wire_cmd [OF assms, of L "''setvol''"] by simp
  show "0 \<le> max 0 (min 100 \<lfloor>r\<rfloor>) \<and> max 0 (min 100 \<lfloor>r\<rfloor>) \<le> 100" by simp
qed

text \<open>
  Claim C7. By \<open>setVolume_finite\<close> every finite volume is sent floored and clamped, within
  0 and 100, as the three examples of the claim are; the infinities are clamped too. NaN
  passes \<^verbatim>\<open>Math.floor\<close>, \<^verbatim>\<open>Math.min\<close> and \<^verbatim>\<open>Math.max\<close> unchanged and is
  sent to the daemon as the text \<open>NaN\<close>.
\<close>

theorem setVolume_NaN:
  "wire (snd (setVolume empty_daemon (connected_client empty_daemon) (Num (- 10)))) = [Cmd ''setvol'' [''0'']]
   \<and> wire (snd (setVolume empty_daemon (connected_client empty_daemon) (Num 110))) = [Cmd ''setvol'' [''100'']]
   \<and> wire (snd (setVolume empty_daemon (connected_client empty_daemon) (Num (509 / 10)))) = [Cmd ''setvol'' [''50'']]
   \<and> wire (snd (setVolume empty_daemon (connected_client empty_daemon) NaN)) = [Cmd ''setvol'' [''NaN'']]"
  by code_simp

subsection \<open>Closing the session\<close>

text \<open>
  Claim C10. \<open>disconnect\<close> on a connected session never throws. When \<open>close\<close> throws,
  the error is logged, the session stays connected, and a following \<open>connect\<close> returns
  at once and changes nothing. In every other case (close resolves, or there is no handle
  or no \<open>close\<close> function to call) the session is disconnected afterwards.
\<close>

theorem disconnect_close_raises:
  assumes "connected s"
  shows "fst (disconnect L s) = Inr ()
       \<and> (close_error L s = Some err \<longrightarrow>
            connected (snd (disconnect L s))
          \<and> console (snd (disconnect L s)) = console s @ [LogErr ''Error disconnecting from MPD:'' err]
          \<and> connect L (snd (disconnect L s)) = (Inr (), snd (disconnect L s)))
       \<and> (close_error L s = None \<longrightarrow> \<not> connected (snd (disconnect L s)))"
  using assms
  by (auto simp: disconnect_def close_error_def connect_def console_error_def
      split: option.splits prod.splits)

theorem disconnect_close_raises_witness:
  "connected (connected_client failing_close)
   \<and> close_error failing_close (connected_client failing_close) = Some ConnectionLost
   \<and> fst (disconnect failing_close (connected_client failing_close)) = Inr ()
   \<and> connected (snd (disconnect failing_close (connected_client failing_close)))
   \<and> console (snd (disconnect failing_close (connected_client failing_close)))
       = [LogErr ''Error disconnecting from MPD:'' ConnectionLost]
   \<and> connect failing_close (snd (disconnect failing_close (connected_client failing_close)))
       = (Inr (), snd (disconnect failing_close (connected_client failing_close)))
   \<and> close_error empty_daemon (connected_client empty_daemon) = None
   \<and> \<not> connected (snd (disconnect empty_daemon (connected_client empty_daemon)))"
proof -
  have c1: "connected (connected_client failing_close)" by code_simp
  have e1: "close_error failing_close (connected_client failing_close) = Some ConnectionLost"
    by code_simp
  have l1: "console (connected_client failing_close) = []" by code_simp
  have c2: "connected (connected_client empty_daemon)" by code_simp
  have e2: "close_error empty_daemon (connected_client empty_daemon) = None" by code_simp
  show ?thesis
    using disconnect_close_raises [OF c1, of failing_close ConnectionLost]
      disconnect_close_raises [OF c2, of empty_daemon ConnectionLost] c1 e1 l1 e2
    by simp
qed

subsection \<open>The cascade of search\<close>

lemma console_error_simps [simp]:
  "client (console_error s x) = client s"
  "connected (console_error s x) = connected s"
  "wire (console_error s x) = wire s"
  "console (console_error s x) = console s @ [x]"
  by (simp_all add: console_error_def)

lemma fst_send: "fst (send L s r) = send_reply L (client s) r"
  by (simp add: send_def send_reply_def case_prod_beta split: option.splits)

lemma snd_send [simp]:
  "client (snd (send L s r)) = send_next L (client s) r"
  "connected (snd (send L s r)) = connected s"
  "wire (snd (send L s r)) = wire s @ (if client s = None then [] else [r])"
  "console (snd (send L s r)) = console s"
  by (simp_all add: send_def send_next_def case_prod_beta split: option.splits)

lemma send_next_None [simp]: "(send_next L c r = None) = (c = None)"
  by (simp add: send_next_def split: option.splits)



lemma includes_single: "js_includes s [c] = (c \<in> set s)"
  by (auto simp: js_includes_def sublist_def in_set_conv_decomp)

lemma search_unfold:
  "search L s type query =
     (case search_attempts L (search_start s type query) type query (processSearchQuery query) of
        (Inr results, s3) \<Rightarrow> (Inr results, s3)
      | (Inl err, s3) \<Rightarrow>
          (let s4 = console_error s3 (LogErr ''MPD search error:'' err)
           in if type \<noteq> ''any''
              then (case search L (console_error s4 (Log ''Trying 'any' field search as last resort'')) ''any'' query of
                      (Inr results, s5) \<Rightarrow> (Inr results, s5)
                    | (Inl anyError, s5) \<Rightarrow>
                        (Inr [], console_error
                                   (console_error s5 (LogErr ''Even 'any' field search failed:'' anyError))
                                   (Log ''All search attempts failed, returning empty results'')))
              else (Inr [], console_error s4 (Log ''All search attempts failed, returning empty results''))))"
  by (subst search.simps) (simp add: search_start_def Let_def)

lemma search_total: "\<exists>songs. fst (search L s type query) = Inr songs"
  by (subst search_unfold) (auto simp: Let_def split: prod.splits sum.splits)

lemma snd_if: "snd (if b then x else y) = (if b then snd x else snd y)"
  by simp

lemma fst_if: "fst (if b then x else y) = (if b then fst x else fst y)"
  by simp

lemma send_Some [simp]:
  "send_reply L (Some d) r = fst (sendCommand L d r)"
  "send_next L (Some d) r = Some (snd (sendCommand L d r))"
  by (simp_all add: send_reply_def send_next_def)









lemma search_attempts_cases:
  "search_attempts L s type query pq =
     (let s0 = console_error s (Log (''Search command: '' @ search_command type pq));
          r = Raw (search_command type pq)
      in if isl (fst (send L s0 r)) \<or> map convertToMpdSong (parseArrayResponse (projr (fst (send L s0 r)))) \<noteq> []
         then (map_sum id (\<lambda>t. map convertToMpdSong (parseArrayResponse t)) (fst (send L s0 r)), snd (send L s0 r))
         else if type = ''title'' \<and> pq \<noteq> query \<and> CHR ''('' \<in> set query
         then title_attempt L (snd (send L s0 r)) type query pq
         else array_attempt L (snd (send L s0 r)) type pq)"
  by (auto simp: search_attempts_def includes_single case_prod_beta Let_def split: sum.splits)







lemma search_start_simps [simp]:
  "client (search_start s type query) = client s"
  "connected (search_start s type query) = connected s"
  "wire (search_start s type query) = wire s"
  by (simp_all add: search_start_def)

lemma search_ok:
  "fst (search_attempts L (search_start s type query) type query (processSearchQuery query)) = Inr songs \<Longrightarrow>
   search L s type query = (Inr songs, snd (search_attempts L (search_start s type query) type query (processSearchQuery query)))"
  by (subst search_unfold) (simp add: case_prod_beta)








subsection \<open>The scenario of the decorated title\<close>





subsection \<open>Failures inside search\<close>

lemma unreachable_console [simp]: "unreachable L (console_error s x) = unreachable L s"
  by (simp add: unreachable_def)

lemma unreachable_start [simp]: "unreachable L (search_start s type query) = unreachable L s"
  by (simp add: search_start_def)

lemma unreachable_send:
  "unreachable L s \<Longrightarrow> isl (fst (send L s r)) \<and> unreachable L (snd (send L s r))"
  by (auto simp: unreachable_def fst_send send_reply_def split: option.splits)

lemma unreachable_attempts:
  assumes "unreachable L s"
  shows "isl (fst (search_attempts L s type query pq))"
    and "unreachable L (snd (search_attempts L s type query pq))"
  using unreachable_send [of L "console_error s (Log (''Search command: '' @ search_command type pq))"
      "Raw (search_command type pq)"] assms
  by (auto simp: search_attempts_cases Let_def isl_map_sum)

lemma search_any_unreachable:
  assumes "unreachable L s"
  shows "fst (search L s ''any'' query) = Inr []"
proof -
  have "isl (fst (search_attempts L (search_start s ''any'' query) ''any'' query (processSearchQuery query)))"
    using assms by (simp add: unreachable_attempts)
  then show ?thesis
    by (subst search_unfold) (auto simp: case_prod_beta Let_def split: sum.splits)
qed

lemma search_unreachable:
  assumes "unreachable L s"
  shows "fst (search L s type query) = Inr []"
proof (cases "type = ''any''")
  case True
  then show ?thesis using search_any_unreachable [OF assms] by simp
next
  case False
  let ?t = "search_attempts L (search_start s type query) type query (processSearchQuery query)"
  have i: "isl (fst ?t)" and u: "unreachable L (snd ?t)"
    using assms by (simp_all add: unreachable_attempts)
  then obtain err where err: "fst ?t = Inl err" by (cases "fst ?t") auto
  let ?s5 = "console_error (console_error (snd ?t) (LogErr ''MPD search error:'' err))
               (Log ''Trying 'any' field search as last resort'')"
  have "fst (search L ?s5 ''any'' query) = Inr []"
    using u by (simp add: search_any_unreachable)
  then show ?thesis
    using False err by (subst search_unfold) (simp add: case_prod_beta Let_def)
qed

text \<open>
  Claim C1, as stated, fails: with a transport that rejects every command as lost, and on
  a session that was never connected, \<open>search\<close> returns the empty list.
\<close>

theorem search_swallows_connectivity_failure:
  "fst (send lost_transport (connected_client lost_transport) (Raw (search_command ''title'' ''x'')))
     = Inl ConnectionLost
   \<and> fst (search lost_transport (connected_client lost_transport) ''title'' ''x'') = Inr []
   \<and> fst (cmd empty_daemon (new_client ''localhost'' 6600) ''search'' [''title'', ''x'']) = Inl NotConnected
   \<and> fst (search empty_daemon (new_client ''localhost'' 6600) ''title'' ''x'') = Inr []"
  by code_simp

lemma search_fail_any:
  assumes "fst (search_try L s ''any'' query) = Inl err"
  shows "search L s ''any'' query =
     (Inr [], console_error
                (console_error (snd (search_try L s ''any'' query)) (LogErr ''MPD search error:'' err))
                (Log ''All search attempts failed, returning empty results''))"
  using assms unfolding search_try_def
  by (subst search_unfold) (simp add: case_prod_beta Let_def)

lemma search_fail_retry:
  assumes "type \<noteq> ''any''" and "fst (search_try L s type query) = Inl err"
  shows "search L s type query =
     search L (console_error
                 (console_error (snd (search_try L s type query)) (LogErr ''MPD search error:'' err))
                 (Log ''Trying 'any' field search as last resort''))
       ''any'' query"
proof -
  let ?s5 = "console_error
                 (console_error (snd (search_try L s type query)) (LogErr ''MPD search error:'' err))
                 (Log ''Trying 'any' field search as last resort'')"
  obtain songs where r: "fst (search L ?s5 ''any'' query) = Inr songs"
    using search_total [of L ?s5 "''any''" query] by blast
  have "search L s type query = (Inr songs, snd (search L ?s5 ''any'' query))"
    using assms r unfolding search_try_def
    by (subst search_unfold) (simp add: case_prod_beta Let_def)
  also have "\<dots> = search L ?s5 ''any'' query"
    using r by (cases "search L ?s5 ''any'' query") simp
  finally show ?thesis .
qed

text \<open>
  Claim C1, amended. No failure raised by a step of the cascade reaches the caller of
  \<open>search\<close>. When the \<^verbatim>\<open>try\<close> block returns a list, \<open>search\<close> returns it. When the
  block fails, the failure is logged; then, for the type \<open>any\<close>, \<open>search\<close> logs that all
  attempts failed and returns the empty list, and for every other type it logs the last
  resort and is the search for the same raw query with the type \<open>any\<close> on the session
  so reached. So \<open>search\<close> always returns a list, and when every request of the session
  fails (there is no handle, or the transport rejects every command) it returns the empty
  list.
\<close>

theorem search_never_fails:
  "(\<forall>songs. fst (search_try L s type query) = Inr songs \<longrightarrow>
       search L s type query = (Inr songs, snd (search_try L s type query)))
   \<and> (\<forall>err. fst (search_try L s type query) = Inl err \<and> type = ''any'' \<longrightarrow>
       search L s type query =
         (Inr [], console_error
                    (console_error (snd (search_try L s type query)) (LogErr ''MPD search error:'' err))
                    (Log ''All search attempts failed, returning empty results'')))
   \<and> (\<forall>err. fst (search_try L s type query) = Inl err \<and> type \<noteq> ''any'' \<longrightarrow>
       search L s type query =
         search L (console_error
                     (console_error (snd (search_try L s type query)) (LogErr ''MPD search error:'' err))
                     (Log ''Trying 'any' field search as last resort''))
           ''any'' query)
   \<and> (\<exists>songs. fst (search L s type query) = Inr songs)
   \<and> (unreachable L s \<longrightarrow> fst (search L s type query) = Inr [])"
proof -
  have a: "search L s type query = (Inr songs, snd (search_try L s type query))"
    if "fst (search_try L s type query) = Inr songs" for songs
    using that search_ok [of L s type query songs] by (simp add: search_try_def)
  have b: "search L s type query =
         (Inr [], console_error
                    (console_error (snd (search_try L s type query)) (LogErr ''MPD search error:'' err))
                    (Log ''All search attempts failed, returning empty results''))"
    if "fst (search_try L s type query) = Inl err" and "type = ''any''" for err
    using that search_fail_any [of L s query err] by simp
  have c: "search L s type query =
         search L (console_error
                     (console_error (snd (search_try L s type query)) (LogErr ''MPD search error:'' err))
                     (Log ''Trying 'any' field search as last resort''))
           ''any'' query"
    if "fst (search_try L s type query) = Inl err" and "type \<noteq> ''any''" for err
    using that search_fail_retry [of type L s query err] by simp
  from a b c search_total [of L s type query] search_unreachable [of L s type query]
  show ?thesis by blast
qed

theorem search_never_fails_witness:
  "unreachable lost_transport (connected_client lost_transport)
   \<and> fst (search_try lost_transport (connected_client lost_transport) ''title'' ''x'') = Inl ConnectionLost
   \<and> ''title'' \<noteq> ''any''
   \<and> search lost_transport (connected_client lost_transport) ''title'' ''x''
       = search lost_transport
           (console_error
              (console_error (snd (search_try lost_transport (connected_client lost_transport) ''title'' ''x''))
                 (LogErr ''MPD search error:'' ConnectionLost))
              (Log ''Trying 'any' field search as last resort''))
           ''any'' ''x''
   \<and> fst (search lost_transport (connected_client lost_transport) ''title'' ''x'') = Inr []
   \<and> wire (snd (search lost_transport (connected_client lost_transport) ''title'' ''x''))
       = [Raw ''search \"title\" \"x\"'', Raw ''search \"any\" \"x\"'']"
proof -
  let ?s = "connected_client lost_transport"
  have u: "unreachable lost_transport ?s"
    by (simp add: unreachable_def lost_transport_def)
  have f: "fst (search_try lost_transport ?s ''title'' ''x'') = Inl ConnectionLost"
    by code_simp
  have n: "''title'' \<noteq> ''any''" by simp
  have w: "wire (snd (search lost_transport ?s ''title'' ''x''))
       = [Raw ''search \"title\" \"x\"'', Raw ''search \"any\" \"x\"'']"
    by code_simp
  from search_never_fails [of lost_transport ?s "''title''" "''x''"] u f n w
  show ?thesis by blast
qed

subsection \<open>Normalization of the query\<close>

lemma split_from_head: "\<exists>p ps. split_from sep cur s = (cur @ p) # ps"
proof (induction s arbitrary: cur)
  case Nil
  then show ?case by simp
next
  case (Cons c cs)
  show ?case using Cons [of "cur @ [c]"] by auto
qed

lemma js_split_nonempty: "sep \<noteq> [] \<Longrightarrow> js_split s sep \<noteq> []"
  using split_from_head [of sep "[]" s] by (auto simp: js_split_def)

lemma prefix_within:
  "prefix xs (A @ B) \<Longrightarrow> length xs \<le> length A \<Longrightarrow> prefix xs A"
  by (auto simp: prefix_append)

lemma sublist_drop_last:
  assumes "sublist xs (ys @ [c])" and "xs \<noteq> []" and "last xs \<noteq> c"
  shows "sublist xs ys"
proof -
  from assms(1) obtain ps ss where e: "ys @ [c] = ps @ xs @ ss"
    unfolding sublist_def by blast
  show ?thesis
  proof (cases ss rule: rev_cases)
    case Nil
    with e have "last (ys @ [c]) = last (ps @ xs)" by simp
    with assms(2,3) show ?thesis by simp
  next
    case (snoc ss' z)
    with e have "ys @ [c] = (ps @ xs @ ss') @ [z]" by simp
    then have "ys = ps @ xs @ ss'" by (simp only: append1_eq_conv)
    then show ?thesis unfolding sublist_def by blast
  qed
qed

lemma prefix_within_Cons:
  assumes "prefix sep (x # xs @ q @ rest)" and "length sep \<le> Suc (length q)"
  shows "prefix sep ((x # xs) @ q)"
proof -
  from assms(1) have "prefix sep (((x # xs) @ q) @ rest)" by simp
  moreover from assms(2) have "length sep \<le> length ((x # xs) @ q)" by simp
  ultimately show ?thesis by (rule prefix_within)
qed

lemma split_from_step:
  "\<not> prefix sep (x # xs @ q @ rest) \<Longrightarrow>
   split_from sep cur ((x # xs) @ q @ rest) = split_from sep (cur @ [x]) (xs @ q @ rest)"
  by (simp del: prefix_code)

lemma split_from_skip:
  "\<not> sublist sep (p @ q) \<Longrightarrow> length sep \<le> Suc (length q) \<Longrightarrow>
   split_from sep cur (p @ q @ rest) = split_from sep (cur @ p) (q @ rest)"
proof (induction p arbitrary: cur)
  case Nil
  then show ?case by simp
next
  case (Cons x xs)
  have n: "\<not> prefix sep (x # xs @ q @ rest)"
  proof
    assume "prefix sep (x # xs @ q @ rest)"
    then have "prefix sep ((x # xs) @ q)"
      using Cons.prems(2) by (rule prefix_within_Cons)
    then have "sublist sep ((x # xs) @ q)" by (rule prefix_imp_sublist)
    with Cons.prems(1) show False by (rule notE)
  qed
  have s: "\<not> sublist sep (xs @ q)"
    using Cons.prems(1) by (simp add: sublist_Cons_right)
  have "split_from sep cur ((x # xs) @ q @ rest) = split_from sep (cur @ [x]) (xs @ q @ rest)"
    using n by (rule split_from_step)
  also have "\<dots> = split_from sep ((cur @ [x]) @ xs) (q @ rest)"
    using s Cons.prems(2) by (rule Cons.IH)
  also have "(cur @ [x]) @ xs = cur @ x # xs" by simp
  finally show ?case .
qed

lemma split_from_match:
  "sep \<noteq> [] \<Longrightarrow> split_from sep cur (sep @ rest) = cur # split_from sep [] rest"
  by (cases sep) simp_all

lemma split_from_first:
  assumes "sep \<noteq> []" and "\<not> sublist sep (l @ butlast sep)"
  shows "split_from sep cur (l @ sep @ rest) = (cur @ l) # split_from sep [] rest"
proof -
  have e: "butlast sep @ ([last sep] @ rest) = sep @ rest"
    using assms(1) by simp
  have "length sep \<le> Suc (length (butlast sep))" by simp
  with assms(2) have "split_from sep cur (l @ butlast sep @ ([last sep] @ rest))
      = split_from sep (cur @ l) (butlast sep @ ([last sep] @ rest))"
    by (rule split_from_skip)
  then have "split_from sep cur (l @ sep @ rest) = split_from sep (cur @ l) (sep @ rest)"
    unfolding e .
  also have "\<dots> = (cur @ l) # split_from sep [] rest"
    using assms(1) by (rule split_from_match)
  finally show ?thesis .
qed

lemma split_dash_piece:
  assumes "\<not> sublist '' - '' (r @ '' '')"
  shows "\<exists>t ps. split_from '' - '' cur (r @ '' ('' @ tail) = (cur @ r @ '' ('' @ t) # ps"
proof -
  have "\<not> sublist '' - '' (r @ '' ('')"
  proof
    assume "sublist '' - '' (r @ '' ('')"
    then have "sublist '' - '' ((r @ '' '') @ ''('')" by simp
    then have "sublist '' - '' (r @ '' '')" by (rule sublist_drop_last) simp_all
    with assms show False by simp
  qed
  then have "split_from '' - '' cur (r @ '' ('' @ tail) = split_from '' - '' (cur @ r) ('' ('' @ tail)"
    by (intro split_from_skip) simp_all
  moreover have "split_from '' - '' (cur @ r) ('' ('' @ tail) = split_from '' - '' (cur @ r @ '' ('') tail"
    by simp
  ultimately show ?thesis
    using split_from_head [of "'' - ''" "cur @ r @ '' (''" tail] by auto
qed

lemma split_paren_piece:
  assumes "\<not> sublist '' ('' r"
  shows "split_from '' ('' cur (r @ '' ('' @ t) = (cur @ r) # split_from '' ('' [] t"
proof -
  have "\<not> sublist '' ('' (r @ butlast '' ('')"
  proof
    assume "sublist '' ('' (r @ butlast '' ('')"
    then have "sublist '' ('' (r @ '' '')" by simp
    then have "sublist '' ('' r" by (rule sublist_drop_last) simp_all
    with assms show False by simp
  qed
  then show ?thesis by (intro split_from_first) simp_all
qed

lemma includes_dash: "js_includes (l @ '' - '' @ rest) '' - ''"
  unfolding js_includes_def sublist_def by blast

lemma includes_paren: "js_includes (l @ '' - '' @ r @ '' ('' @ t) ''(''"
proof -
  have "l @ '' - '' @ r @ '' ('' @ t = (l @ '' - '' @ r @ '' '') @ ''('' @ t" by simp
  then show ?thesis unfolding js_includes_def sublist_def by blast
qed

lemma processSearchQuery_unchanged:
  "\<not> js_includes query '' - '' \<or> \<not> js_includes query ''('' \<Longrightarrow> processSearchQuery query = query"
  by (auto simp: processSearchQuery_def)

lemma processSearchQuery_shape:
  assumes "\<not> js_includes (left @ '' -'') '' - ''" and "\<not> js_includes (right @ '' '') '' - ''"
    and "\<not> js_includes right '' (''" and "right \<noteq> []"
  shows "processSearchQuery (left @ '' - '' @ right @ '' ('' @ tail) = js_trim right"
proof -
  let ?q = "left @ '' - '' @ right @ '' ('' @ tail"
  from assms(2) split_dash_piece [of right "[]" tail]
  obtain t ps where seg: "split_from '' - '' [] (right @ '' ('' @ tail) = (right @ '' ('' @ t) # ps"
    unfolding js_includes_def by auto
  have "\<not> sublist '' - '' (left @ butlast '' - '')"
    using assms(1) by (simp add: js_includes_def)
  then have "split_from '' - '' [] (left @ '' - '' @ (right @ '' ('' @ tail))
      = ([] @ left) # split_from '' - '' [] (right @ '' ('' @ tail)"
    by (intro split_from_first) simp_all
  then have "js_split ?q '' - '' = left # (right @ '' ('' @ t) # ps"
    using seg by (simp add: js_split_def)
  moreover have "hd (js_split (right @ '' ('' @ t) '' ('') = right"
    using split_paren_piece [of right "[]" t] assms(3)
    by (simp add: js_split_def js_includes_def)
  ultimately show ?thesis
    using includes_dash [of left "right @ '' ('' @ tail"] includes_paren [of left right tail] assms(4)
    by (simp add: processSearchQuery_def Let_def)
qed

text \<open>
  Claim C4, as stated, fails. The query \<open>A -  (B)\<close> has the shape with an empty right
  part and is returned as it is, not as the empty text. The query \<open>A - (B)\<close> does not
  have the shape (after its separator there is no blank before the parenthesis) and is
  changed. The query \<open>A - B - C (D)\<close> has the shape in two ways, with \<open>B - C\<close> or with
  \<open>C\<close> in the place of the right part, and is normalized to \<open>B\<close>, the piece between
  the first two separators.
\<close>

theorem processSearchQuery_not_the_shape:
  "''A -  (B)'' = ''A'' @ '' - '' @ [] @ '' ('' @ ''B)''
   \<and> processSearchQuery ''A -  (B)'' = ''A -  (B)''
   \<and> js_trim [] = []
   \<and> processSearchQuery ''A - (B)'' = ''(B)''
   \<and> ''A - B - C (D)'' = ''A'' @ '' - '' @ ''B - C'' @ '' ('' @ ''D)''
   \<and> ''A - B - C (D)'' = ''A - B'' @ '' - '' @ ''C'' @ '' ('' @ ''D)''
   \<and> processSearchQuery ''A - B - C (D)'' = ''B''
   \<and> js_trim ''B - C'' = ''B - C''
   \<and> js_trim ''C'' = ''C''"
  by code_simp

text \<open>
  Claim C4, amended. The normalization is a function of the query alone. A query without
  the separator \<open>" - "\<close> or without an opening parenthesis is returned as it is. A query
  \<open>left - right (tail\<close> is normalized to its right part, trimmed, when the separator
  after the left part is the first \<open>" - "\<close> of the query, no further \<open>" - "\<close> begins
  inside the right part, the right part contains no \<open>" ("\<close>, and it is not empty.
\<close>

theorem processSearchQuery_normalizes:
  "(\<not> js_includes query '' - '' \<or> \<not> js_includes query ''('' \<longrightarrow> processSearchQuery query = query)
   \<and> (\<not> js_includes (left @ '' -'') '' - '' \<and> \<not> js_includes (right @ '' '') '' - ''
        \<and> \<not> js_includes right '' ('' \<and> right \<noteq> [] \<longrightarrow>
        processSearchQuery (left @ '' - '' @ right @ '' ('' @ tail) = js_trim right)"
  using processSearchQuery_unchanged [of query] processSearchQuery_shape [of left right tail]
  by blast

theorem processSearchQuery_normalizes_witness:
  "\<not> js_includes ''Be Quiet and Drive (Far Away)'' '' - ''
   \<and> processSearchQuery ''Be Quiet and Drive (Far Away)'' = ''Be Quiet and Drive (Far Away)''
   \<and> \<not> js_includes (''AC-DC'' @ '' -'') '' - '' \<and> \<not> js_includes (''T-N-T(x) '' @ '' '') '' - ''
   \<and> \<not> js_includes ''T-N-T(x) '' '' ('' \<and> ''T-N-T(x) '' \<noteq> []
   \<and> processSearchQuery ''AC-DC - T-N-T(x)  (High Voltage)'' = ''T-N-T(x)''"
proof -
  have n: "\<not> js_includes ''Be Quiet and Drive (Far Away)'' '' - ''" by code_simp
  have h: "\<not> js_includes (''AC-DC'' @ '' -'') '' - '' \<and> \<not> js_includes (''T-N-T(x) '' @ '' '') '' - ''
      \<and> \<not> js_includes ''T-N-T(x) '' '' ('' \<and> ''T-N-T(x) '' \<noteq> []"
    by code_simp
  have t: "js_trim ''T-N-T(x) '' = ''T-N-T(x)''" by code_simp
  from processSearchQuery_normalizes
         [of "''Be Quiet and Drive (Far Away)''" "''AC-DC''" "''T-N-T(x) ''" "''High Voltage)''"]
       n h t
  show ?thesis by simp
qed

end
